theory Spec2Isabelle
  imports Main "HOL-Library.Word"
begin

section \<open>Compressed section support of BFD (bfd/compress.c)\<close>

text \<open>
  A shallow embedding of \<^verbatim>\<open>bfd/compress.c\<close>. Every C function of the file is a HOL
  function of the same name. What the file calls but does not define (zlib, the
  allocators, the raw section reader, the format-specific header codec) is a field of
  one of the two records \<open>libs\<close> and \<open>bfd\<close>, so that every theorem holds for every
  behaviour of these collaborators, except where a hypothesis names one.

  Conventions.
  \<^item> A buffer is the list of its bytes; a pointer is \<open>byte list option\<close>, \<open>None\<close> being
    \<^verbatim>\<open>NULL\<close>. Copying into a buffer replaces a prefix of the list.
  \<^item> \<^verbatim>\<open>bfd_size_type\<close> and \<^verbatim>\<open>uLong\<close> are 64-bit, \<^verbatim>\<open>int\<close> and \<^verbatim>\<open>uInt\<close> are 32-bit. Sizes are
    \<open>nat\<close>, C \<^verbatim>\<open>int\<close>s are \<open>int\<close>, and each conversion between them is written
    out (\<open>to_uLong\<close>, \<open>to_uInt\<close>, \<open>to_int\<close>).
  \<^item> The calls that leave the file (allocation, release, raw reads, \<^verbatim>\<open>bfd_set_error\<close>,
    the error handler) are recorded, in order, in the \<open>trace\<close> of the state.
  \<^item> \<^verbatim>\<open>abort ()\<close> is the value \<open>Inl Abort\<close>.
  \<^item> The inflate loop has no bound of its own, so it is a partial function into
    \<open>option\<close>: \<open>None\<close> is a loop that never ends.
\<close>

subsection \<open>Data\<close>

type_synonym byte = "8 word"

datatype compress_status_t =
  COMPRESS_SECTION_NONE | COMPRESS_SECTION_DONE | DECOMPRESS_SECTION_SIZED

datatype sec_flag = SEC_HAS_CONTENTS | SEC_IN_MEMORY | SEC_LINKER_CREATED | SEC_OTHER nat

datatype bfd_error =
    bfd_error_no_error
  | bfd_error_system_call
  | bfd_error_wrong_format
  | bfd_error_invalid_operation
  | bfd_error_no_memory
  | bfd_error_bad_value
  | bfd_error_file_truncated

datatype bfd_direction = no_direction | read_direction | write_direction | both_direction

datatype bfd_flavour =
  bfd_target_unknown_flavour | bfd_target_elf_flavour | bfd_target_mmo_flavour

datatype fatal = Abort

text \<open>
  The fields of \<^verbatim>\<open>asection\<close> that the file touches. \<open>flags\<close> is the set of the bits
  that are set: \<^verbatim>\<open>(flags & F) == 0\<close> is \<open>F \<notin> flags\<close> and \<^verbatim>\<open>flags |= F\<close> inserts \<open>F\<close>. The
  C field \<^verbatim>\<open>size\<close> is \<open>sec_size\<close>. The three values of \<open>compress_status_t\<close> are the
  ones the file assigns and switches on, which leaves the \<^verbatim>\<open>default: abort ()\<close> of
  \<^verbatim>\<open>bfd_get_full_section_contents\<close> without a value that reaches it.
\<close>

record asection =
  name :: string
  flags :: "sec_flag set"
  sec_size :: nat
  rawsize :: nat
  compressed_size :: nat
  alignment_power :: nat
  contents :: "byte list option"
  compress_status :: compress_status_t

datatype event =
    EvMalloc nat
  | EvFree
  | EvAlloc nat
  | EvRelease
  | EvRead nat nat
  | EvSetError bfd_error
  | EvErrorHandler

record state =
  sec :: asection
  trace :: "event list"

text \<open>
  zlib and \<^verbatim>\<open>bfd_malloc\<close>. \<open>inflate Z input avail_out\<close> is one call of
  \<^verbatim>\<open>inflate (&strm, Z_FINISH)\<close> on a freshly initialised or reset stream whose readable
  input is \<open>input\<close>: it yields the return code, the number of input bytes consumed and
  the bytes written. \<open>compress Z source destLen\<close> yields the return code and the bytes
  written. \<open>inflateInit\<close>, \<open>inflateReset\<close> and \<open>inflateEnd\<close> are the return codes of these
  calls. \<open>bfd_malloc Z n\<close> is \<open>Inr b\<close> for a fresh buffer \<open>b\<close>, or \<open>Inl e\<close> for \<^verbatim>\<open>NULL\<close>
  with \<open>e\<close> what \<^verbatim>\<open>bfd_get_error ()\<close> returns afterwards.
\<close>

record libs =
  bfd_malloc :: "nat \<Rightarrow> bfd_error + byte list"
  inflateInit :: int
  inflate :: "byte list \<Rightarrow> nat \<Rightarrow> int \<times> nat \<times> byte list"
  inflateReset :: int
  inflateEnd :: int
  compress :: "byte list \<Rightarrow> nat \<Rightarrow> int \<times> byte list"
  compressBound :: "nat \<Rightarrow> nat"

text \<open>
  The handle \<^verbatim>\<open>abfd\<close> with the collaborators that depend on it.
  \<open>bfd_get_compression_header_size abfd None\<close> is the call with a \<^verbatim>\<open>NULL\<close> section (the
  header size of the output format); \<open>bfd_get_section_contents abfd s offset count\<close> is
  \<open>Some\<close> of the bytes read or \<open>None\<close> on failure; \<open>bfd_check_compression_header\<close>
  yields the uncompressed size and alignment power of a header it accepts;
  \<open>bfd_update_compression_header abfd buffer s\<close> yields the buffer with the header
  written and the section as the codec leaves it.
\<close>

record bfd =
  direction :: bfd_direction
  flavour :: bfd_flavour
  bfd_get_file_size :: nat
  bfd_get_compression_header_size :: "asection option \<Rightarrow> nat"
  bfd_get_section_contents :: "asection \<Rightarrow> nat \<Rightarrow> nat \<Rightarrow> byte list option"
  bfd_check_compression_header :: "byte list \<Rightarrow> asection \<Rightarrow> (nat \<times> nat) option"
  bfd_update_compression_header :: "byte list \<Rightarrow> asection \<Rightarrow> byte list \<times> asection"
  bfd_alloc :: "nat \<Rightarrow> byte list option"

record z_stream =
  next_in :: "byte list"
  avail_in :: nat
  avail_out :: nat

subsection \<open>Constants and small helpers\<close>

definition MAX_COMPRESSION_HEADER_SIZE :: int where
  "MAX_COMPRESSION_HEADER_SIZE = 24"

definition Z_OK :: int where
  "Z_OK = 0"

definition Z_STREAM_END :: int where
  "Z_STREAM_END = 1"

definition Z_DATA_ERROR :: int where
  "Z_DATA_ERROR = - 3"

definition Z_BUF_ERROR :: int where
  "Z_BUF_ERROR = - 5"

definition to_uInt :: "nat \<Rightarrow> nat" where
  "to_uInt n = n mod 2 ^ 32"

definition to_uLong :: "int \<Rightarrow> nat" where
  "to_uLong i = nat (i mod 2 ^ 64)"

definition to_int :: "int \<Rightarrow> int" where
  "to_int i = (i + 2 ^ 31) mod 2 ^ 32 - 2 ^ 31"

definition emit :: "event \<Rightarrow> state \<Rightarrow> state" where
  "emit e st = st\<lparr>trace := trace st @ [e]\<rparr>"

text \<open>\<^verbatim>\<open>memcpy (dst + off, src, length src)\<close> on the bytes of \<open>dst\<close>.\<close>

definition write_at :: "nat \<Rightarrow> byte list \<Rightarrow> byte list \<Rightarrow> byte list" where
  "write_at off src dst = take off dst @ src @ drop (off + length src) dst"

definition bytes_of :: "string \<Rightarrow> byte list" where
  "bytes_of s = map (\<lambda>c. of_nat (of_char c)) s"

text \<open>\<^verbatim>\<open>startswith (s, prefix)\<close> is \<^verbatim>\<open>strncmp (s, prefix, strlen (prefix)) == 0\<close>.\<close>

definition startswith :: "byte list \<Rightarrow> string \<Rightarrow> bool" where
  "startswith s prefix = (take (length prefix) s = bytes_of prefix)"

text \<open>
  Modelled from the spec: \<^verbatim>\<open>bfd_getb64\<close> is defined in libbfd.c, outside this file; the
  spec gives the field as 8 bytes, unsigned, big-endian.
\<close>

definition bfd_getb64 :: "byte list \<Rightarrow> nat" where
  "bfd_getb64 bs = foldl (\<lambda>acc b. acc * 256 + unat b) 0 (take 8 bs)"

text \<open>
  Modelled from the spec: \<^verbatim>\<open>ISPRINT\<close> comes from safe-ctype.h, outside this file; the
  spec calls the byte a printable character, which in the C locale is the range
  from the space to the tilde.
\<close>

definition ISPRINT :: "byte \<Rightarrow> bool" where
  "ISPRINT c = (32 \<le> unat c \<and> unat c \<le> 126)"

definition bfd_set_section_alignment :: "asection \<Rightarrow> nat \<Rightarrow> asection" where
  "bfd_set_section_alignment s val = s\<lparr>alignment_power := val\<rparr>"

subsection \<open>decompress_contents\<close>

text \<open>
  One \<^verbatim>\<open>inflate\<close> call on the stream: the primitive sees the \<open>avail_in\<close> readable bytes
  and the free output space, and the stream and the output buffer move on by what it
  consumed and wrote at \<^verbatim>\<open>next_out\<close>, here the offset \<open>off\<close>.
\<close>

definition inflate_call ::
  "libs \<Rightarrow> z_stream \<Rightarrow> byte list \<Rightarrow> nat \<Rightarrow> int \<times> z_stream \<times> byte list" where
  "inflate_call Z strm out off =
     (case inflate Z (take (avail_in strm) (next_in strm)) (avail_out strm) of
        (rc, consumed, produced) \<Rightarrow>
          (rc,
           strm\<lparr>next_in := drop consumed (next_in strm),
                avail_in := avail_in strm - consumed,
                avail_out := avail_out strm - length produced\<rparr>,
           write_at off produced out))"

text \<open>The \<^verbatim>\<open>while\<close> loop of \<^verbatim>\<open>decompress_contents\<close>, from the state after \<^verbatim>\<open>inflateInit\<close>.\<close>

partial_function (option) inflate_loop ::
  "libs \<Rightarrow> nat \<Rightarrow> int \<Rightarrow> z_stream \<Rightarrow> byte list \<Rightarrow> (int \<times> z_stream \<times> byte list) option" where
  "inflate_loop Z uncompressed_size rc strm uncompressed_buffer =
     (if avail_in strm > 0 \<and> avail_out strm > 0 then
        if rc \<noteq> Z_OK then Some (rc, strm, uncompressed_buffer)
        else
          (case inflate_call Z strm uncompressed_buffer (uncompressed_size - avail_out strm) of
             (rc1, strm1, buffer1) \<Rightarrow>
               if rc1 \<noteq> Z_STREAM_END then Some (rc1, strm1, buffer1)
               else inflate_loop Z uncompressed_size (inflateReset Z) strm1 buffer1)
      else Some (rc, strm, uncompressed_buffer))"

definition decompress_contents ::
  "libs \<Rightarrow> byte list \<Rightarrow> nat \<Rightarrow> byte list \<Rightarrow> nat \<Rightarrow> (bool \<times> byte list) option" where
  "decompress_contents Z compressed_buffer compressed_size' uncompressed_buffer uncompressed_size =
     (let strm = \<lparr>next_in = compressed_buffer,
                  avail_in = to_uInt compressed_size',
                  avail_out = to_uInt uncompressed_size\<rparr>;
          rc = inflateInit Z
      in case inflate_loop Z uncompressed_size rc strm uncompressed_buffer of
           None \<Rightarrow> None
         | Some (rc', strm', buffer') \<Rightarrow>
             Some (inflateEnd Z = Z_OK \<and> rc' = Z_OK \<and> avail_out strm' = 0, buffer'))"

subsection \<open>Compression detection\<close>

text \<open>
  The result is the returned flag with the three output parameters
  \<^verbatim>\<open>*compression_header_size_p\<close>, \<^verbatim>\<open>*uncompressed_size_p\<close> and
  \<^verbatim>\<open>*uncompressed_align_pow_p\<close>. \<open>header\<close> is the list the read returned; the C array
  has 24 bytes, of which a successful read fills the first \<open>header_size\<close>.
\<close>

definition bfd_is_section_compressed_with_header ::
  "bfd \<Rightarrow> state \<Rightarrow> fatal + ((bool \<times> int \<times> nat \<times> nat) \<times> state)" where
  "bfd_is_section_compressed_with_header abfd st =
     (let saved = compress_status (sec st);
          compression_header_size = int (bfd_get_compression_header_size abfd (Some (sec st)))
      in if compression_header_size > MAX_COMPRESSION_HEADER_SIZE then Inl Abort
         else
           let header_size = (if compression_header_size \<noteq> 0 then compression_header_size else 12);
               st1 = st\<lparr>sec := (sec st)\<lparr>compress_status := COMPRESS_SECTION_NONE\<rparr>\<rparr>;
               rd = bfd_get_section_contents abfd (sec st1) 0 (nat header_size);
               st2 = emit (EvRead 0 (nat header_size)) st1;
               compressed =
                 (case rd of
                    Some header \<Rightarrow>
                      if compression_header_size = 0 then startswith header ''ZLIB'' else True
                  | None \<Rightarrow> False);
               out =
                 (case rd of
                    None \<Rightarrow> (compressed, compression_header_size, sec_size (sec st2), 0)
                  | Some header \<Rightarrow>
                      if compressed then
                        if compression_header_size \<noteq> 0 then
                          (case bfd_check_compression_header abfd header (sec st2) of
                             None \<Rightarrow> (compressed, - 1, sec_size (sec st2), 0)
                           | Some (usize, upow) \<Rightarrow>
                               (compressed, compression_header_size, usize, upow))
                        else if name (sec st2) = ''.debug_str'' \<and> ISPRINT (header ! 4) then
                          (False, compression_header_size, sec_size (sec st2), 0)
                        else
                          (compressed, compression_header_size, bfd_getb64 (drop 4 header), 0)
                      else (compressed, compression_header_size, sec_size (sec st2), 0));
               st3 = st2\<lparr>sec := (sec st2)\<lparr>compress_status := saved\<rparr>\<rparr>
           in Inr (out, st3))"

definition bfd_is_section_compressed :: "bfd \<Rightarrow> state \<Rightarrow> fatal + (bool \<times> state)" where
  "bfd_is_section_compressed abfd st =
     (case bfd_is_section_compressed_with_header abfd st of
        Inl a \<Rightarrow> Inl a
      | Inr ((compressed, compression_header_size, uncompressed_size, uncompressed_align_power), st') \<Rightarrow>
          Inr (compressed \<and> compression_header_size \<ge> 0 \<and> uncompressed_size > 0, st'))"

subsection \<open>bfd_compress_section_contents\<close>

text \<open>
  The common tail of the function (the statements after the \<^verbatim>\<open>if (compressed)\<close>
  block): the raw input is freed and \<open>buffer\<close> becomes the contents.
\<close>

definition compress_done :: "byte list \<Rightarrow> nat \<Rightarrow> nat \<Rightarrow> state \<Rightarrow> nat \<times> state" where
  "compress_done buffer compressed_size' uncompressed_size st =
     (let st1 = emit EvFree st
      in (uncompressed_size,
          st1\<lparr>sec := (sec st1)\<lparr>contents := Some buffer,
                                sec_size := compressed_size',
                                compress_status := COMPRESS_SECTION_DONE\<rparr>\<rparr>))"

text \<open>
  The result is the returned size (0 for failure) and the state. The local
  \<^verbatim>\<open>zlib_size\<close> is a C \<^verbatim>\<open>int\<close>: the subtraction that fills it and the sum
  \<^verbatim>\<open>zlib_size + header_size\<close> are taken in 32 bits, and widened where the C widens them.
\<close>

definition bfd_compress_section_contents ::
  "libs \<Rightarrow> bfd \<Rightarrow> byte list \<Rightarrow> nat \<Rightarrow> state \<Rightarrow> (fatal + (nat \<times> state)) option" where
  "bfd_compress_section_contents Z abfd uncompressed_buffer uncompressed_size st =
     (let header_size0 = int (bfd_get_compression_header_size abfd None) in
      case bfd_is_section_compressed_with_header abfd st of
        Inl a \<Rightarrow> Some (Inl a)
      | Inr ((compressed, orig_compression_header_size0, orig_uncompressed_size,
              orig_uncompressed_alignment_pow), st0) \<Rightarrow>
          let header_size = (if header_size0 = 0 then 12 else header_size0) in
          if compressed \<and> orig_compression_header_size0 < 0 then Some (Inl Abort)
          else
            let orig_compression_header_size =
                  (if compressed \<and> orig_compression_header_size0 = 0 then 12
                   else orig_compression_header_size0);
                zlib_size =
                  (if compressed then to_int (int uncompressed_size - orig_compression_header_size)
                   else 0);
                compressed_size0 =
                  (if compressed then to_uLong (to_int (zlib_size + header_size))
                   else to_uLong (int (compressBound Z uncompressed_size) + header_size));
                decompress = (compressed \<and> compressed_size0 > orig_uncompressed_size);
                buffer_size = (if decompress then orig_uncompressed_size else compressed_size0);
                st1 = emit (EvAlloc buffer_size) st0
            in (case bfd_alloc abfd buffer_size of
                 None \<Rightarrow> Some (Inr (0, st1))
               | Some buffer \<Rightarrow>
                   if compressed then
                     let st2 = st1\<lparr>sec := (sec st1)\<lparr>sec_size := orig_uncompressed_size\<rparr>\<rparr> in
                     if decompress then
                       (case decompress_contents Z
                               (drop (nat orig_compression_header_size) uncompressed_buffer)
                               (to_uLong zlib_size) buffer buffer_size of
                          None \<Rightarrow> None
                        | Some (ok, buffer') \<Rightarrow>
                            if \<not> ok then
                              Some (Inr (0, emit EvRelease (emit (EvSetError bfd_error_bad_value) st2)))
                            else
                              let st3 = emit EvFree st2;
                                  s3 = bfd_set_section_alignment (sec st3) orig_uncompressed_alignment_pow
                              in Some (Inr (orig_uncompressed_size,
                                            st3\<lparr>sec := s3\<lparr>contents := Some buffer',
                                                          compress_status := COMPRESS_SECTION_DONE\<rparr>\<rparr>)))
                     else
                       (case bfd_update_compression_header abfd buffer (sec st2) of
                          (buffer1, s1) \<Rightarrow>
                            let buffer2 =
                                  write_at (nat header_size)
                                    (take (to_uLong zlib_size)
                                       (drop (nat orig_compression_header_size) uncompressed_buffer))
                                    buffer1
                            in Some (Inr (compress_done buffer2 compressed_size0 uncompressed_size
                                            (st2\<lparr>sec := s1\<rparr>))))
                   else
                     (case compress Z (take uncompressed_size uncompressed_buffer) compressed_size0 of
                        (rc, produced) \<Rightarrow>
                          if rc \<noteq> Z_OK then
                            Some (Inr (0, emit (EvSetError bfd_error_bad_value) (emit EvRelease st1)))
                          else
                            let buffer1 = write_at (nat header_size) produced buffer;
                                compressed_size1 = to_uLong (int (length produced) + header_size)
                            in if compressed_size1 < uncompressed_size then
                                 (case bfd_update_compression_header abfd buffer1 (sec st1) of
                                    (buffer2, s2) \<Rightarrow>
                                      Some (Inr (compress_done buffer2 compressed_size1 uncompressed_size
                                                   (st1\<lparr>sec := s2\<rparr>))))
                               else
                                 let st2 = emit EvRelease st1
                                 in Some (Inr (uncompressed_size,
                                               st2\<lparr>sec := (sec st2)\<lparr>contents := Some uncompressed_buffer,
                                                                     compress_status := COMPRESS_SECTION_NONE\<rparr>\<rparr>)))))"

subsection \<open>bfd_get_full_section_contents\<close>

text \<open>
  The result is the returned flag, \<^verbatim>\<open>*ptr\<close> on return and the state; the argument
  \<open>ptr\<close> is \<^verbatim>\<open>*ptr\<close> on entry. The three cases of the \<^verbatim>\<open>switch\<close> are three definitions.
  \<open>sz\<close> is the size the function settles on before the \<^verbatim>\<open>switch\<close>.
\<close>

definition section_sz :: "bfd \<Rightarrow> asection \<Rightarrow> nat" where
  "section_sz abfd s =
     (if direction abfd \<noteq> write_direction \<and> rawsize s \<noteq> 0 then rawsize s else sec_size s)"

text \<open>Lines 287 to 294: the raw read into \<open>p\<close>, \<open>ptr\<close> being \<^verbatim>\<open>*ptr\<close>.\<close>

definition read_none ::
  "bfd \<Rightarrow> byte list option \<Rightarrow> byte list \<Rightarrow> nat \<Rightarrow> state \<Rightarrow> bool \<times> byte list option \<times> state" where
  "read_none abfd ptr p sz st =
     (let st1 = emit (EvRead 0 sz) st
      in case bfd_get_section_contents abfd (sec st) 0 sz of
           None \<Rightarrow> (False, ptr, if ptr \<noteq> Some p then emit EvFree st1 else st1)
         | Some bs \<Rightarrow> (True, Some (write_at 0 bs p), st1))"

definition get_full_none ::
  "libs \<Rightarrow> bfd \<Rightarrow> byte list option \<Rightarrow> nat \<Rightarrow> state \<Rightarrow> bool \<times> byte list option \<times> state" where
  "get_full_none Z abfd ptr sz st =
     (case ptr of
        None \<Rightarrow>
          let filesize = bfd_get_file_size abfd in
          if filesize > 0
             \<and> filesize < sz
             \<and> SEC_LINKER_CREATED \<notin> flags (sec st)
             \<and> SEC_HAS_CONTENTS \<in> flags (sec st)
             \<and> flavour abfd \<noteq> bfd_target_mmo_flavour
          then (False, None, emit EvErrorHandler (emit (EvSetError bfd_error_file_truncated) st))
          else
            let st1 = emit (EvMalloc sz) st
            in (case bfd_malloc Z sz of
                  Inl e \<Rightarrow>
                    (False, None, if e = bfd_error_no_memory then emit EvErrorHandler st1 else st1)
                | Inr p \<Rightarrow> read_none abfd ptr p sz st1)
      | Some p \<Rightarrow> read_none abfd ptr p sz st)"

definition get_full_sized ::
  "libs \<Rightarrow> bfd \<Rightarrow> byte list option \<Rightarrow> nat \<Rightarrow> state \<Rightarrow> (bool \<times> byte list option \<times> state) option" where
  "get_full_sized Z abfd ptr sz st =
     (let st1 = emit (EvMalloc (compressed_size (sec st))) st
      in (case bfd_malloc Z (compressed_size (sec st)) of
           Inl e \<Rightarrow> Some (False, ptr, st1)
         | Inr compressed_buffer0 \<Rightarrow>
             let save_rawsize = rawsize (sec st1);
                 save_size = sec_size (sec st1);
                 st2 = st1\<lparr>sec := (sec st1)\<lparr>rawsize := 0,
                                              sec_size := compressed_size (sec st1),
                                              compress_status := COMPRESS_SECTION_NONE\<rparr>\<rparr>;
                 ret = bfd_get_section_contents abfd (sec st2) 0 (compressed_size (sec st2));
                 st3 = emit (EvRead 0 (compressed_size (sec st2))) st2;
                 st4 = st3\<lparr>sec := (sec st3)\<lparr>rawsize := save_rawsize,
                                              sec_size := save_size,
                                              compress_status := DECOMPRESS_SECTION_SIZED\<rparr>\<rparr>
             in (case ret of
                  None \<Rightarrow> Some (False, ptr, emit EvFree st4)
                | Some bs \<Rightarrow>
                    let compressed_buffer = write_at 0 bs compressed_buffer0;
                        st5 = (if ptr = None then emit (EvMalloc sz) st4 else st4)
                    in (case (case ptr of None \<Rightarrow> bfd_malloc Z sz | Some p0 \<Rightarrow> Inr p0) of
                         Inl e \<Rightarrow> Some (False, ptr, emit EvFree st5)
                       | Inr p \<Rightarrow>
                           let compression_header_size0 =
                                 to_uInt (bfd_get_compression_header_size abfd (Some (sec st5)));
                               compression_header_size =
                                 (if compression_header_size0 = 0 then 12 else compression_header_size0)
                           in (case decompress_contents Z
                                     (drop compression_header_size compressed_buffer)
                                     (to_uLong (int (compressed_size (sec st5)) - int compression_header_size))
                                     p sz of
                                None \<Rightarrow> None
                              | Some (ok, p') \<Rightarrow>
                                  if \<not> ok then
                                    let st6 = emit (EvSetError bfd_error_bad_value) st5;
                                        st7 = (if ptr = None then emit EvFree st6 else st6)
                                    in Some (False, (if ptr = None then None else Some p'), emit EvFree st7)
                                  else Some (True, Some p', emit EvFree st5))))))"

definition get_full_done ::
  "libs \<Rightarrow> byte list option \<Rightarrow> nat \<Rightarrow> state \<Rightarrow> bool \<times> byte list option \<times> state" where
  "get_full_done Z ptr sz st =
     (case contents (sec st) of
        None \<Rightarrow> (False, ptr, st)
      | Some c \<Rightarrow>
          (case ptr of
             None \<Rightarrow>
               let st1 = emit (EvMalloc sz) st
               in (case bfd_malloc Z sz of
                     Inl e \<Rightarrow> (False, None, st1)
                   | Inr p \<Rightarrow> (True, Some (if p \<noteq> c then write_at 0 (take sz c) p else p), st1))
           | Some p \<Rightarrow> (True, Some (if p \<noteq> c then write_at 0 (take sz c) p else p), st)))"

definition bfd_get_full_section_contents ::
  "libs \<Rightarrow> bfd \<Rightarrow> byte list option \<Rightarrow> state \<Rightarrow> (bool \<times> byte list option \<times> state) option" where
  "bfd_get_full_section_contents Z abfd ptr st =
     (let sz = section_sz abfd (sec st)
      in if sz = 0 then Some (True, None, st)
         else
           (case compress_status (sec st) of
              COMPRESS_SECTION_NONE \<Rightarrow> Some (get_full_none Z abfd ptr sz st)
            | DECOMPRESS_SECTION_SIZED \<Rightarrow> get_full_sized Z abfd ptr sz st
            | COMPRESS_SECTION_DONE \<Rightarrow> Some (get_full_done Z ptr sz st)))"

subsection \<open>Cache and status initialisation\<close>

definition bfd_cache_section_contents :: "asection \<Rightarrow> byte list option \<Rightarrow> asection" where
  "bfd_cache_section_contents s contents' =
     (let s1 = (if compress_status s = DECOMPRESS_SECTION_SIZED
                then s\<lparr>compress_status := COMPRESS_SECTION_DONE\<rparr> else s)
      in s1\<lparr>contents := contents', flags := insert SEC_IN_MEMORY (flags s1)\<rparr>)"

definition bfd_init_section_decompress_status :: "bfd \<Rightarrow> state \<Rightarrow> fatal + (bool \<times> state)" where
  "bfd_init_section_decompress_status abfd st =
     (let compression_header_size = int (bfd_get_compression_header_size abfd (Some (sec st)))
      in if compression_header_size > MAX_COMPRESSION_HEADER_SIZE then Inl Abort
         else
           let header_size = (if compression_header_size \<noteq> 0 then compression_header_size else 12)
           in if rawsize (sec st) \<noteq> 0
                 \<or> contents (sec st) \<noteq> None
                 \<or> compress_status (sec st) \<noteq> COMPRESS_SECTION_NONE
              then Inr (False, emit (EvSetError bfd_error_invalid_operation) st)
              else
                let st1 = emit (EvRead 0 (nat header_size)) st
                in (case bfd_get_section_contents abfd (sec st) 0 (nat header_size) of
                      None \<Rightarrow> Inr (False, emit (EvSetError bfd_error_invalid_operation) st1)
                    | Some header \<Rightarrow>
                        (case (if compression_header_size = 0 then
                                 (if \<not> startswith header ''ZLIB'' then None
                                  else Some (bfd_getb64 (drop 4 header), 0))
                               else bfd_check_compression_header abfd header (sec st1)) of
                           None \<Rightarrow> Inr (False, emit (EvSetError bfd_error_wrong_format) st1)
                         | Some (uncompressed_size, uncompressed_alignment_power) \<Rightarrow>
                             let s1 = (sec st1)\<lparr>compressed_size := sec_size (sec st1),
                                                sec_size := uncompressed_size\<rparr>;
                                 s2 = bfd_set_section_alignment s1 uncompressed_alignment_power
                             in Inr (True,
                                     st1\<lparr>sec := s2\<lparr>compress_status := DECOMPRESS_SECTION_SIZED\<rparr>\<rparr>))))"

definition bfd_init_section_compress_status ::
  "libs \<Rightarrow> bfd \<Rightarrow> state \<Rightarrow> (fatal + (bool \<times> state)) option" where
  "bfd_init_section_compress_status Z abfd st =
     (if direction abfd \<noteq> read_direction
         \<or> sec_size (sec st) = 0
         \<or> rawsize (sec st) \<noteq> 0
         \<or> contents (sec st) \<noteq> None
         \<or> compress_status (sec st) \<noteq> COMPRESS_SECTION_NONE
      then Some (Inr (False, emit (EvSetError bfd_error_invalid_operation) st))
      else
        let uncompressed_size = sec_size (sec st);
            st1 = emit (EvMalloc uncompressed_size) st
        in case bfd_malloc Z uncompressed_size of
             Inl e \<Rightarrow> Some (Inr (False, st1))
           | Inr uncompressed_buffer0 \<Rightarrow>
               let st2 = emit (EvRead 0 uncompressed_size) st1
               in (case bfd_get_section_contents abfd (sec st1) 0 uncompressed_size of
                     None \<Rightarrow> Some (Inr (False, st2))
                   | Some bs \<Rightarrow>
                       (case bfd_compress_section_contents Z abfd
                               (write_at 0 bs uncompressed_buffer0) uncompressed_size st2 of
                          None \<Rightarrow> None
                        | Some (Inl a) \<Rightarrow> Some (Inl a)
                        | Some (Inr (uncompressed_size', st3)) \<Rightarrow>
                            Some (Inr (uncompressed_size' \<noteq> 0, st3)))))"

definition bfd_compress_section ::
  "libs \<Rightarrow> bfd \<Rightarrow> byte list option \<Rightarrow> state \<Rightarrow> (fatal + (bool \<times> state)) option" where
  "bfd_compress_section Z abfd uncompressed_buffer st =
     (let uncompressed_size = sec_size (sec st)
      in case uncompressed_buffer of
           None \<Rightarrow> Some (Inr (False, emit (EvSetError bfd_error_invalid_operation) st))
         | Some ub \<Rightarrow>
             if direction abfd \<noteq> write_direction
                \<or> uncompressed_size = 0
                \<or> contents (sec st) \<noteq> None
                \<or> compressed_size (sec st) \<noteq> 0
                \<or> compress_status (sec st) \<noteq> COMPRESS_SECTION_NONE
             then Some (Inr (False, emit (EvSetError bfd_error_invalid_operation) st))
             else
               (case bfd_compress_section_contents Z abfd ub uncompressed_size st of
                  None \<Rightarrow> None
                | Some (Inl a) \<Rightarrow> Some (Inl a)
                | Some (Inr (uncompressed_size', st')) \<Rightarrow>
                    Some (Inr (uncompressed_size' \<noteq> 0, st'))))"

subsection \<open>A concrete environment\<close>

text \<open>
  A small instance of the collaborators, on which the functions above can be run. The
  stream format is a length byte followed by that many literal bytes; the reader
  serves the section from a byte list standing for the file; the header codec is the
  legacy one of \<^verbatim>\<open>bfd_update_compression_header\<close>: the magic, then the size in 8
  big-endian bytes.
\<close>

definition stored_inflate :: "byte list \<Rightarrow> nat \<Rightarrow> int \<times> nat \<times> byte list" where
  "stored_inflate input avail =
     (case input of
        [] \<Rightarrow> (Z_BUF_ERROR, 0, [])
      | n # rest \<Rightarrow>
          if length rest < unat n then (Z_DATA_ERROR, length input, take avail rest)
          else if avail < unat n then (Z_BUF_ERROR, Suc avail, take avail rest)
          else (Z_STREAM_END, Suc (unat n), take (unat n) rest))"

definition stored_compress :: "byte list \<Rightarrow> nat \<Rightarrow> int \<times> byte list" where
  "stored_compress source destLen =
     (if length source < 256 \<and> Suc (length source) \<le> destLen
      then (Z_OK, of_nat (length source) # source)
      else (Z_BUF_ERROR, []))"

definition stored_libs :: libs where
  "stored_libs =
     \<lparr>bfd_malloc = (\<lambda>n. Inr (replicate n 0)),
      inflateInit = Z_OK,
      inflate = stored_inflate,
      inflateReset = Z_OK,
      inflateEnd = Z_OK,
      compress = stored_compress,
      compressBound = Suc\<rparr>"

definition putb64 :: "nat \<Rightarrow> byte list" where
  "putb64 n = map (\<lambda>k. of_nat (n div 256 ^ k)) [7, 6, 5, 4, 3, 2, 1, 0]"

definition file_bfd :: "bfd_direction \<Rightarrow> bfd_flavour \<Rightarrow> nat \<Rightarrow> byte list \<Rightarrow> bfd" where
  "file_bfd d f target_header_size file =
     \<lparr>direction = d,
      flavour = f,
      bfd_get_file_size = length file,
      bfd_get_compression_header_size =
        (\<lambda>s. case s of None \<Rightarrow> target_header_size | Some s' \<Rightarrow> 0),
      bfd_get_section_contents =
        (\<lambda>s offset count.
           if offset + count \<le> length file then Some (take count (drop offset file)) else None),
      bfd_check_compression_header = (\<lambda>header s. None),
      bfd_update_compression_header =
        (\<lambda>buffer s. (write_at 0 (bytes_of ''ZLIB'' @ putb64 (sec_size s)) buffer,
                      bfd_set_section_alignment s 0)),
      bfd_alloc = (\<lambda>n. Some (replicate n 0))\<rparr>"

definition new_section :: "string \<Rightarrow> nat \<Rightarrow> asection" where
  "new_section nm n =
     \<lparr>name = nm, flags = {SEC_HAS_CONTENTS}, sec_size = n, rawsize = 0, compressed_size = 0,
      alignment_power = 0, contents = None, compress_status = COMPRESS_SECTION_NONE\<rparr>"

definition start :: "asection \<Rightarrow> state" where
  "start s = \<lparr>sec = s, trace = []\<rparr>"

text \<open>
  A handle of the MMO flavour: the file holds the sections in an encoding of its own,
  so the reader hands out more bytes than the file has.
\<close>

definition mmo_bfd :: "byte list \<Rightarrow> bfd" where
  "mmo_bfd file =
     (file_bfd read_direction bfd_target_mmo_flavour 0 file)
       \<lparr>bfd_get_section_contents := (\<lambda>s offset count. Some (replicate count 42))\<rparr>"

text \<open>
  A handle whose sections carry an embedded header of 24 bytes, laid out as the ELF64
  one: the type (1 for zlib) in 4 little-endian bytes, 4 reserved bytes, the
  uncompressed size and the alignment in 8 little-endian bytes each.
\<close>

definition chdr_check :: "byte list \<Rightarrow> asection \<Rightarrow> (nat \<times> nat) option" where
  "chdr_check header s =
     (if take 4 header = [1, 0, 0, 0]
      then Some (bfd_getb64 (rev (take 8 (drop 8 header))),
                 (let a = unat (header ! 16)
                  in if 8 \<le> a then 3 else if 4 \<le> a then 2 else if 2 \<le> a then 1 else 0))
      else None)"

definition chdr_bfd :: "bfd_direction \<Rightarrow> nat \<Rightarrow> byte list \<Rightarrow> bfd" where
  "chdr_bfd d target_header_size file =
     (file_bfd d bfd_target_elf_flavour target_header_size file)
       \<lparr>bfd_get_compression_header_size :=
          (\<lambda>s. case s of None \<Rightarrow> target_header_size | Some s' \<Rightarrow> 24),
        bfd_check_compression_header := chdr_check\<rparr>"

text \<open>
  Three section images: 16 bytes that the stored format cannot shrink; a legacy
  section of 10 bytes (the magic, the size, one stored block); and a section with the
  embedded header, of 3 bytes aligned to 8.
\<close>

definition raw16 :: "byte list" where
  "raw16 = [1, 2, 3, 4, 5, 6, 7, 8, 9, 10, 11, 12, 13, 14, 15, 16]"

definition zdebug10 :: "byte list" where
  "zdebug10 = bytes_of ''ZLIB'' @ [0, 0, 0, 0, 0, 0, 0, 10] @ [10, 1, 2, 3, 4, 5, 6, 7, 8, 9, 10]"


subsection \<open>The invariant of the data model\<close>

text \<open>The contents pointer is non-null if and only if the state is \<^verbatim>\<open>COMPRESS_SECTION_DONE\<close>.\<close>

definition contents_iff_done :: "asection \<Rightarrow> bool" where
  "contents_iff_done s = ((contents s \<noteq> None) = (compress_status s = COMPRESS_SECTION_DONE))"

subsection \<open>What a clean decompression is\<close>



section \<open>Properties\<close>

subsection \<open>Retrieval of a section of size zero\<close>



subsection \<open>The file-truncation guard\<close>




text \<open>
  C10. On a handle of the MMO flavour, retrieval of a section in state
  \<^verbatim>\<open>COMPRESS_SECTION_NONE\<close> with \<^verbatim>\<open>*ptr == NULL\<close> and a nonzero size \<open>sz\<close> never takes the
  truncation branch, whatever the file size and the flags are: its first step is
  \<^verbatim>\<open>bfd_malloc (sz)\<close>, and when that succeeds the next is the read of \<open>sz\<close> bytes at
  offset 0. No \<^verbatim>\<open>bfd_error_file_truncated\<close> is set on any of the three ways out.
\<close>

theorem mmo_skips_truncation_guard:
  assumes "flavour abfd = bfd_target_mmo_flavour"
    and "compress_status (sec st) = COMPRESS_SECTION_NONE"
    and "section_sz abfd (sec st) = sz"
    and "sz \<noteq> 0"
  shows "bfd_get_full_section_contents Z abfd None st =
           Some (case bfd_malloc Z sz of
                   Inl e \<Rightarrow>
                     (False, None,
                      st\<lparr>trace := trace st @ EvMalloc sz #
                                     (if e = bfd_error_no_memory then [EvErrorHandler] else [])\<rparr>)
                 | Inr p \<Rightarrow>
                     (case bfd_get_section_contents abfd (sec st) 0 sz of
                        None \<Rightarrow>
                          (False, None, st\<lparr>trace := trace st @ [EvMalloc sz, EvRead 0 sz, EvFree]\<rparr>)
                      | Some bs \<Rightarrow>
                          (True, Some (write_at 0 bs p),
                           st\<lparr>trace := trace st @ [EvMalloc sz, EvRead 0 sz]\<rparr>)))"
  using assms
  by (simp add: bfd_get_full_section_contents_def get_full_none_def read_none_def emit_def
      split: sum.split option.split)

theorem mmo_skips_truncation_guard_witness:
  "bfd_get_file_size (mmo_bfd [1, 2, 3]) < section_sz (mmo_bfd [1, 2, 3]) (new_section ''.data'' 5)
   \<and> bfd_get_full_section_contents stored_libs (mmo_bfd [1, 2, 3]) None
         (start (new_section ''.data'' 5))
       = Some (True, Some [42, 42, 42, 42, 42],
               \<lparr>sec = new_section ''.data'' 5, trace = [EvMalloc 5, EvRead 0 5]\<rparr>)"
  using mmo_skips_truncation_guard [of "mmo_bfd [1, 2, 3]" "start (new_section ''.data'' 5)" 5
      stored_libs]
  by (simp add: mmo_bfd_def file_bfd_def start_def new_section_def section_sz_def stored_libs_def
      write_at_def eval_nat_numeral)

subsection \<open>Compression detection\<close>

text \<open>
  C9. Detection leaves \<open>compress_status\<close> as it found it. When the header size of
  the section's format is at most 24, \<^verbatim>\<open>bfd_is_section_compressed_with_header\<close>
  returns, on every path and whether or not the header read succeeded, and the section
  (and with it its \<open>compress_status\<close>) is then the one before the call. Above 24 the
  function calls \<^verbatim>\<open>abort ()\<close>, which comes before the status is touched.
\<close>

theorem detection_restores_status:
  "(bfd_get_compression_header_size abfd (Some (sec st)) \<le> 24 \<longrightarrow>
      (\<exists>out st'. bfd_is_section_compressed_with_header abfd st = Inr (out, st')
         \<and> compress_status (sec st') = compress_status (sec st)
         \<and> sec st' = sec st))
   \<and> (24 < bfd_get_compression_header_size abfd (Some (sec st)) \<longrightarrow>
        bfd_is_section_compressed_with_header abfd st = Inl Abort)"
proof (intro conjI impI)
  assume le: "bfd_get_compression_header_size abfd (Some (sec st)) \<le> 24"
  show "\<exists>out st'. bfd_is_section_compressed_with_header abfd st = Inr (out, st')
         \<and> compress_status (sec st') = compress_status (sec st)
         \<and> sec st' = sec st"
  proof (cases "bfd_is_section_compressed_with_header abfd st")
    case (Inl a)
    with le show ?thesis
      by (simp add: bfd_is_section_compressed_with_header_def Let_def
          MAX_COMPRESSION_HEADER_SIZE_def)
  next
    case (Inr x)
    obtain out st' where x: "x = (out, st')" by (cases x)
    from Inr have "sec st' = sec st"
      unfolding x
      by (auto simp: bfd_is_section_compressed_with_header_def Let_def emit_def split: if_splits)
    with Inr x show ?thesis by (intro exI [of _ out] exI [of _ st']) simp
  qed
next
  assume "24 < bfd_get_compression_header_size abfd (Some (sec st))"
  then show "bfd_is_section_compressed_with_header abfd st = Inl Abort"
    by (simp add: bfd_is_section_compressed_with_header_def Let_def
        MAX_COMPRESSION_HEADER_SIZE_def)
qed

theorem detection_restores_status_witness:
  "bfd_get_section_contents (file_bfd read_direction bfd_target_elf_flavour 0 [1, 2, 3])
      ((new_section ''.zdebug_info'' 40)\<lparr>compress_status := COMPRESS_SECTION_NONE\<rparr>) 0 12 = None
   \<and> bfd_is_section_compressed_with_header (file_bfd read_direction bfd_target_elf_flavour 0 [1, 2, 3])
        (start ((new_section ''.zdebug_info'' 40)\<lparr>compress_status := DECOMPRESS_SECTION_SIZED\<rparr>))
      = Inr ((False, 0, 40, 0),
             \<lparr>sec = (new_section ''.zdebug_info'' 40)\<lparr>compress_status := DECOMPRESS_SECTION_SIZED\<rparr>,
              trace = [EvRead 0 12]\<rparr>)
   \<and> compress_status
        (sec \<lparr>sec = (new_section ''.zdebug_info'' 40)\<lparr>compress_status := DECOMPRESS_SECTION_SIZED\<rparr>,
              trace = [EvRead 0 12]\<rparr>)
       = compress_status
           (sec (start ((new_section ''.zdebug_info'' 40)\<lparr>compress_status := DECOMPRESS_SECTION_SIZED\<rparr>)))
   \<and> bfd_is_section_compressed_with_header
        ((file_bfd read_direction bfd_target_elf_flavour 0 [1, 2, 3])
           \<lparr>bfd_get_compression_header_size := (\<lambda>s. 25)\<rparr>)
        (start (new_section ''.zdebug_info'' 40))
      = Inl Abort"
proof -
  have rd: "bfd_get_section_contents (file_bfd read_direction bfd_target_elf_flavour 0 [1, 2, 3])
      ((new_section ''.zdebug_info'' 40)\<lparr>compress_status := COMPRESS_SECTION_NONE\<rparr>) 0 12 = None"
    by (simp add: file_bfd_def)
  have r: "bfd_is_section_compressed_with_header (file_bfd read_direction bfd_target_elf_flavour 0 [1, 2, 3])
        (start ((new_section ''.zdebug_info'' 40)\<lparr>compress_status := DECOMPRESS_SECTION_SIZED\<rparr>))
      = Inr ((False, 0, 40, 0),
             \<lparr>sec = (new_section ''.zdebug_info'' 40)\<lparr>compress_status := DECOMPRESS_SECTION_SIZED\<rparr>,
              trace = [EvRead 0 12]\<rparr>)"
    by (simp add: bfd_is_section_compressed_with_header_def Let_def emit_def file_bfd_def start_def
        new_section_def MAX_COMPRESSION_HEADER_SIZE_def)
  have le: "bfd_get_compression_header_size (file_bfd read_direction bfd_target_elf_flavour 0 [1, 2, 3])
      (Some (sec (start ((new_section ''.zdebug_info'' 40)
                           \<lparr>compress_status := DECOMPRESS_SECTION_SIZED\<rparr>)))) \<le> 24"
    by (simp add: file_bfd_def)
  from detection_restores_status [of "file_bfd read_direction bfd_target_elf_flavour 0 [1, 2, 3]"
      "start ((new_section ''.zdebug_info'' 40)\<lparr>compress_status := DECOMPRESS_SECTION_SIZED\<rparr>)"]
    le
  obtain out st' where
    "bfd_is_section_compressed_with_header (file_bfd read_direction bfd_target_elf_flavour 0 [1, 2, 3])
        (start ((new_section ''.zdebug_info'' 40)\<lparr>compress_status := DECOMPRESS_SECTION_SIZED\<rparr>))
      = Inr (out, st')"
    and "compress_status (sec st')
         = compress_status
             (sec (start ((new_section ''.zdebug_info'' 40)
                            \<lparr>compress_status := DECOMPRESS_SECTION_SIZED\<rparr>)))"
    by blast
  with r have a: "compress_status
        (sec \<lparr>sec = (new_section ''.zdebug_info'' 40)\<lparr>compress_status := DECOMPRESS_SECTION_SIZED\<rparr>,
              trace = [EvRead 0 12]\<rparr>)
       = compress_status
           (sec (start ((new_section ''.zdebug_info'' 40)\<lparr>compress_status := DECOMPRESS_SECTION_SIZED\<rparr>)))"
    by simp
  have gt: "24 < bfd_get_compression_header_size
                    ((file_bfd read_direction bfd_target_elf_flavour 0 [1, 2, 3])
                       \<lparr>bfd_get_compression_header_size := (\<lambda>s. 25)\<rparr>)
                    (Some (sec (start (new_section ''.zdebug_info'' 40))))"
    by simp
  from detection_restores_status [of
      "(file_bfd read_direction bfd_target_elf_flavour 0 [1, 2, 3])
           \<lparr>bfd_get_compression_header_size := (\<lambda>s. 25)\<rparr>"
      "start (new_section ''.zdebug_info'' 40)"] gt
  have b: "bfd_is_section_compressed_with_header
        ((file_bfd read_direction bfd_target_elf_flavour 0 [1, 2, 3])
           \<lparr>bfd_get_compression_header_size := (\<lambda>s. 25)\<rparr>)
        (start (new_section ''.zdebug_info'' 40))
      = Inl Abort"
    by blast
  from rd r a b show ?thesis by blast
qed

text \<open>
  C6. A section named \<^verbatim>\<open>.debug_str\<close> of a format without an embedded header, whose
  first 12 bytes start with the magic and have a printable byte at offset 4, is
  reported as not compressed, by \<^verbatim>\<open>bfd_is_section_compressed_with_header\<close> and by
  \<^verbatim>\<open>bfd_is_section_compressed\<close>. With an embedded header of \<open>n\<close> bytes the name and
  the bytes play no part: a header that was read makes the section compressed, and
  only the format's own check decides between the header size \<open>n\<close> and \<open>- 1\<close>.
\<close>

theorem debug_str_guard:
  "(name (sec st) = ''.debug_str''
      \<and> bfd_get_compression_header_size abfd (Some (sec st)) = 0
      \<and> bfd_get_section_contents abfd ((sec st)\<lparr>compress_status := COMPRESS_SECTION_NONE\<rparr>) 0 12
          = Some header
      \<and> startswith header ''ZLIB''
      \<and> ISPRINT (header ! 4)
    \<longrightarrow> bfd_is_section_compressed_with_header abfd st
          = Inr ((False, 0, sec_size (sec st), 0), emit (EvRead 0 12) st)
        \<and> bfd_is_section_compressed abfd st = Inr (False, emit (EvRead 0 12) st))
   \<and> (bfd_get_compression_header_size abfd (Some (sec st)) = n
      \<and> 0 < n \<and> n \<le> 24
      \<and> bfd_get_section_contents abfd ((sec st)\<lparr>compress_status := COMPRESS_SECTION_NONE\<rparr>) 0 n
          = Some header'
    \<longrightarrow> bfd_is_section_compressed_with_header abfd st
          = Inr ((case bfd_check_compression_header abfd header'
                         ((sec st)\<lparr>compress_status := COMPRESS_SECTION_NONE\<rparr>) of
                    None \<Rightarrow> (True, - 1, sec_size (sec st), 0)
                  | Some (usize, upow) \<Rightarrow> (True, int n, usize, upow)),
                 emit (EvRead 0 n) st))"
  by (auto simp: bfd_is_section_compressed_def bfd_is_section_compressed_with_header_def Let_def
      emit_def MAX_COMPRESSION_HEADER_SIZE_def split: option.split)

theorem debug_str_guard_witness:
  "bfd_is_section_compressed_with_header
       (file_bfd read_direction bfd_target_elf_flavour 0 (bytes_of ''ZLIBxxxx and more text''))
       (start (new_section ''.debug_str'' 22))
     = Inr ((False, 0, 22, 0), \<lparr>sec = new_section ''.debug_str'' 22, trace = [EvRead 0 12]\<rparr>)
   \<and> bfd_is_section_compressed
       (file_bfd read_direction bfd_target_elf_flavour 0 (bytes_of ''ZLIBxxxx and more text''))
       (start (new_section ''.debug_str'' 22))
     = Inr (False, \<lparr>sec = new_section ''.debug_str'' 22, trace = [EvRead 0 12]\<rparr>)
   \<and> bfd_is_section_compressed_with_header
       (chdr_bfd read_direction 24 (bytes_of ''ZLIBxxxx and more text, up to 24''))
       (start (new_section ''.debug_str'' 32))
     = Inr ((True, - 1, 32, 0), \<lparr>sec = new_section ''.debug_str'' 32, trace = [EvRead 0 24]\<rparr>)"
proof -
  have legacy:
    "name (sec (start (new_section ''.debug_str'' 22))) = ''.debug_str''
     \<and> bfd_get_compression_header_size
          (file_bfd read_direction bfd_target_elf_flavour 0 (bytes_of ''ZLIBxxxx and more text''))
          (Some (sec (start (new_section ''.debug_str'' 22)))) = 0
     \<and> bfd_get_section_contents
          (file_bfd read_direction bfd_target_elf_flavour 0 (bytes_of ''ZLIBxxxx and more text''))
          ((sec (start (new_section ''.debug_str'' 22)))\<lparr>compress_status := COMPRESS_SECTION_NONE\<rparr>)
          0 12 = Some (bytes_of ''ZLIBxxxx and'')
     \<and> startswith (bytes_of ''ZLIBxxxx and'') ''ZLIB''
     \<and> ISPRINT (bytes_of ''ZLIBxxxx and'' ! 4)"
    by (simp add: file_bfd_def start_def new_section_def bytes_of_def startswith_def ISPRINT_def)
  have embedded:
    "bfd_get_compression_header_size (chdr_bfd read_direction 24 (bytes_of ''ZLIBxxxx and more text, up to 24''))
        (Some (sec (start (new_section ''.debug_str'' 32)))) = 24
     \<and> bfd_get_section_contents (chdr_bfd read_direction 24 (bytes_of ''ZLIBxxxx and more text, up to 24''))
          ((sec (start (new_section ''.debug_str'' 32)))\<lparr>compress_status := COMPRESS_SECTION_NONE\<rparr>)
          0 24 = Some (bytes_of ''ZLIBxxxx and more text, '')"
    by (simp add: chdr_bfd_def file_bfd_def start_def new_section_def bytes_of_def)
  from legacy
    debug_str_guard [of "start (new_section ''.debug_str'' 22)"
      "file_bfd read_direction bfd_target_elf_flavour 0 (bytes_of ''ZLIBxxxx and more text'')"
      "bytes_of ''ZLIBxxxx and''" 0 "[]"]
  have a: "bfd_is_section_compressed_with_header
       (file_bfd read_direction bfd_target_elf_flavour 0 (bytes_of ''ZLIBxxxx and more text''))
       (start (new_section ''.debug_str'' 22))
     = Inr ((False, 0, 22, 0), \<lparr>sec = new_section ''.debug_str'' 22, trace = [EvRead 0 12]\<rparr>)
   \<and> bfd_is_section_compressed
       (file_bfd read_direction bfd_target_elf_flavour 0 (bytes_of ''ZLIBxxxx and more text''))
       (start (new_section ''.debug_str'' 22))
     = Inr (False, \<lparr>sec = new_section ''.debug_str'' 22, trace = [EvRead 0 12]\<rparr>)"
    by (simp add: start_def new_section_def emit_def)
  from embedded
    debug_str_guard [of "start (new_section ''.debug_str'' 32)"
      "chdr_bfd read_direction 24 (bytes_of ''ZLIBxxxx and more text, up to 24'')"
      "[]" 24 "bytes_of ''ZLIBxxxx and more text, ''"]
  have b: "bfd_is_section_compressed_with_header
       (chdr_bfd read_direction 24 (bytes_of ''ZLIBxxxx and more text, up to 24''))
       (start (new_section ''.debug_str'' 32))
     = Inr ((True, - 1, 32, 0), \<lparr>sec = new_section ''.debug_str'' 32, trace = [EvRead 0 24]\<rparr>)"
    by (simp add: start_def new_section_def emit_def chdr_bfd_def chdr_check_def bytes_of_def
        file_bfd_def)
  from a b show ?thesis by simp
qed

text \<open>
  C3, as the code has it. When the format has no embedded header and the first 12
  bytes of the section are the magic followed by the big-endian 50, detection reports
  the section as compressed with uncompressed size 50, alignment power 0 and
  compression header size 0, the mark of the legacy header (12 is the number of bytes
  read, not the size reported); \<^verbatim>\<open>bfd_is_section_compressed\<close> returns true.
\<close>

theorem legacy_header_detected:
  assumes "bfd_get_compression_header_size abfd (Some (sec st)) = 0"
    and "bfd_get_section_contents abfd ((sec st)\<lparr>compress_status := COMPRESS_SECTION_NONE\<rparr>) 0 12
           = Some (bytes_of ''ZLIB'' @ [0, 0, 0, 0, 0, 0, 0, 50])"
  shows "bfd_is_section_compressed_with_header abfd st
           = Inr ((True, 0, 50, 0), emit (EvRead 0 12) st)
         \<and> bfd_is_section_compressed abfd st = Inr (True, emit (EvRead 0 12) st)"
  using assms
  by (simp add: bfd_is_section_compressed_def bfd_is_section_compressed_with_header_def Let_def
      emit_def MAX_COMPRESSION_HEADER_SIZE_def startswith_def bytes_of_def ISPRINT_def
      bfd_getb64_def)

theorem legacy_header_detected_witness:
  "bfd_is_section_compressed_with_header
       (file_bfd read_direction bfd_target_elf_flavour 0
          (bytes_of ''ZLIB'' @ [0, 0, 0, 0, 0, 0, 0, 50, 3, 1, 2, 3]))
       (start (new_section ''.zdebug_info'' 16))
     = Inr ((True, 0, 50, 0), \<lparr>sec = new_section ''.zdebug_info'' 16, trace = [EvRead 0 12]\<rparr>)
   \<and> bfd_is_section_compressed
       (file_bfd read_direction bfd_target_elf_flavour 0
          (bytes_of ''ZLIB'' @ [0, 0, 0, 0, 0, 0, 0, 50, 3, 1, 2, 3]))
       (start (new_section ''.zdebug_info'' 16))
     = Inr (True, \<lparr>sec = new_section ''.zdebug_info'' 16, trace = [EvRead 0 12]\<rparr>)"
  using legacy_header_detected [of
      "file_bfd read_direction bfd_target_elf_flavour 0
          (bytes_of ''ZLIB'' @ [0, 0, 0, 0, 0, 0, 0, 50, 3, 1, 2, 3])"
      "start (new_section ''.zdebug_info'' 16)"]
  by (simp add: file_bfd_def start_def new_section_def emit_def bytes_of_def)

text \<open>
  C3 as it is stated fails: on such a section the header size that detection reports
  is 0, not 12.
\<close>

theorem legacy_header_size_counterexample:
  "bfd_get_compression_header_size
       (file_bfd read_direction bfd_target_elf_flavour 0
          (bytes_of ''ZLIB'' @ [0, 0, 0, 0, 0, 0, 0, 50, 3, 1, 2, 3]))
       (Some (new_section ''.zdebug_info'' 16)) = 0
   \<and> bfd_is_section_compressed_with_header
       (file_bfd read_direction bfd_target_elf_flavour 0
          (bytes_of ''ZLIB'' @ [0, 0, 0, 0, 0, 0, 0, 50, 3, 1, 2, 3]))
       (start (new_section ''.zdebug_info'' 16))
     = Inr ((True, 0, 50, 0), \<lparr>sec = new_section ''.zdebug_info'' 16, trace = [EvRead 0 12]\<rparr>)
   \<and> bfd_is_section_compressed_with_header
       (file_bfd read_direction bfd_target_elf_flavour 0
          (bytes_of ''ZLIB'' @ [0, 0, 0, 0, 0, 0, 0, 50, 3, 1, 2, 3]))
       (start (new_section ''.zdebug_info'' 16))
     \<noteq> Inr ((True, 12, 50, 0), \<lparr>sec = new_section ''.zdebug_info'' 16, trace = [EvRead 0 12]\<rparr>)"
  by (simp add: bfd_is_section_compressed_with_header_def Let_def
      emit_def MAX_COMPRESSION_HEADER_SIZE_def startswith_def bytes_of_def ISPRINT_def
      bfd_getb64_def file_bfd_def start_def new_section_def)

subsection \<open>The write path: bfd_compress_section_contents\<close>


lemma to_uLong_id: "0 \<le> i \<Longrightarrow> i < 2 ^ 64 \<Longrightarrow> to_uLong i = nat i"
  by (simp add: to_uLong_def)

text \<open>
  C1, as the code has it. When detection finds the section not compressed, the
  allocation of \<^verbatim>\<open>compressBound (uncompressed_size) + header_size\<close> bytes succeeds,
  \<^verbatim>\<open>compress\<close> returns \<^verbatim>\<open>Z_OK\<close>, and the header size plus the compressed size is not
  smaller than \<open>uncompressed_size\<close>, the function releases the compressed buffer,
  makes the raw input buffer itself the contents of the section, sets the status to
  \<^verbatim>\<open>COMPRESS_SECTION_NONE\<close> (line 194; not \<^verbatim>\<open>COMPRESS_SECTION_DONE\<close>), leaves every other
  field of the section alone, and returns \<open>uncompressed_size\<close>. \<open>header_size\<close> is the
  header size of the output format, or 12 when that is 0.
\<close>

theorem no_gain_fallback:
  assumes det: "bfd_is_section_compressed_with_header abfd st = Inr ((False, ohs, ousz, opow), st0)"
    and hs: "header_size = (if bfd_get_compression_header_size abfd None = 0 then 12
                            else bfd_get_compression_header_size abfd None)"
    and bound: "to_uLong (int (compressBound Z uncompressed_size) + int header_size) = n"
    and alloc: "bfd_alloc abfd n = Some buffer"
    and comp: "compress Z (take uncompressed_size uncompressed_buffer) n = (Z_OK, produced)"
    and small: "header_size + length produced < 2 ^ 64"
    and nogain: "\<not> header_size + length produced < uncompressed_size"
  shows "bfd_compress_section_contents Z abfd uncompressed_buffer uncompressed_size st =
           Some (Inr (uncompressed_size,
                      \<lparr>sec = (sec st)\<lparr>contents := Some uncompressed_buffer,
                                       compress_status := COMPRESS_SECTION_NONE\<rparr>,
                       trace = trace st0 @ [EvAlloc n, EvRelease]\<rparr>))"
proof -
  have s0: "sec st0 = sec st"
    using det by (auto simp: bfd_is_section_compressed_with_header_def Let_def emit_def split: if_splits)
  have sz: "to_uLong (int (length produced) + int header_size) = length produced + header_size"
    using small by (simp add: to_uLong_id nat_add_distrib)
  show ?thesis
  proof (cases "bfd_get_compression_header_size abfd None = 0")
    case True
    with hs have h: "header_size = 12" by simp
    show ?thesis
      using alloc comp nogain bound s0 sz True unfolding h
      by (simp add: bfd_compress_section_contents_def det Let_def emit_def)
  next
    case False
    with hs have h: "header_size = bfd_get_compression_header_size abfd None" by simp
    show ?thesis
      using alloc comp nogain bound s0 sz False unfolding h
      by (simp add: bfd_compress_section_contents_def det Let_def emit_def)
  qed
qed


theorem no_gain_fallback_witness:
  "bfd_compress_section_contents stored_libs
       (file_bfd write_direction bfd_target_elf_flavour 0 [5, 6, 7]) [5, 6, 7] 3
       (start (new_section ''.debug_abbrev'' 3))
     = Some (Inr (3,
                  \<lparr>sec = (new_section ''.debug_abbrev'' 3)\<lparr>contents := Some [5, 6, 7],
                                                            compress_status := COMPRESS_SECTION_NONE\<rparr>,
                   trace = [EvRead 0 12, EvAlloc 16, EvRelease]\<rparr>))"
proof -
  have det: "bfd_is_section_compressed_with_header
               (file_bfd write_direction bfd_target_elf_flavour 0 [5, 6, 7])
               (start (new_section ''.debug_abbrev'' 3))
             = Inr ((False, 0, 3, 0),
                    \<lparr>sec = new_section ''.debug_abbrev'' 3, trace = [EvRead 0 12]\<rparr>)"
    by (simp add: bfd_is_section_compressed_with_header_def Let_def emit_def file_bfd_def
        start_def new_section_def MAX_COMPRESSION_HEADER_SIZE_def)
  have hs: "(12::nat) =
      (if bfd_get_compression_header_size
            (file_bfd write_direction bfd_target_elf_flavour 0 [5, 6, 7]) None = 0
       then 12
       else bfd_get_compression_header_size
              (file_bfd write_direction bfd_target_elf_flavour 0 [5, 6, 7]) None)"
    by (simp add: file_bfd_def)
  have bound: "to_uLong (int (compressBound stored_libs 3) + int 12) = 16"
    by (simp add: stored_libs_def to_uLong_def)
  have alloc: "bfd_alloc (file_bfd write_direction bfd_target_elf_flavour 0 [5, 6, 7]) 16
                 = Some (replicate 16 0)"
    by (simp add: file_bfd_def)
  have comp: "compress stored_libs (take 3 [5, 6, 7]) 16 = (Z_OK, [3, 5, 6, 7])"
    by (simp add: stored_libs_def stored_compress_def)
  have small: "12 + length [3, 5, 6, 7 :: byte] < 2 ^ 64"
    by simp
  have nogain: "\<not> 12 + length [3, 5, 6, 7 :: byte] < 3"
    by simp
  from no_gain_fallback [OF det hs bound alloc comp small nogain]
  show ?thesis by (simp add: start_def)
qed

text \<open>
  C1 as it is stated fails on the state: committing 16 bytes that do not shrink (17
  bytes of stream plus 12 of header) keeps the 16 raw bytes as contents and returns
  16, and the status is \<^verbatim>\<open>COMPRESS_SECTION_NONE\<close>, not \<^verbatim>\<open>COMPRESS_SECTION_DONE\<close>.
\<close>

theorem no_gain_state_counterexample:
  "bfd_compress_section_contents stored_libs
       (file_bfd write_direction bfd_target_elf_flavour 0 raw16) raw16 16
       (start (new_section ''.debug_info'' 16))
     = Some (Inr (16,
                  \<lparr>sec = (new_section ''.debug_info'' 16)\<lparr>contents := Some raw16,
                                                          compress_status := COMPRESS_SECTION_NONE\<rparr>,
                   trace = [EvRead 0 12, EvAlloc 29, EvRelease]\<rparr>))
   \<and> compress_status
        (sec \<lparr>sec = (new_section ''.debug_info'' 16)\<lparr>contents := Some raw16,
                                                     compress_status := COMPRESS_SECTION_NONE\<rparr>,
              trace = [EvRead 0 12, EvAlloc 29, EvRelease]\<rparr>)
       \<noteq> COMPRESS_SECTION_DONE"
  by (simp add: bfd_compress_section_contents_def bfd_is_section_compressed_with_header_def
      Let_def emit_def file_bfd_def start_def new_section_def MAX_COMPRESSION_HEADER_SIZE_def
      stored_libs_def stored_compress_def to_uLong_def raw16_def startswith_def bytes_of_def
      Z_OK_def write_at_def)




subsection \<open>The stream decompressor\<close>






subsection \<open>Contents and the state Done\<close>

text \<open>
  What each operation does to the section: retrieval and detection give it back as it
  was; the others are followed through their branches.
\<close>

lemma get_full_none_sec: "get_full_none Z abfd ptr sz st = (r, p', st') \<Longrightarrow> sec st' = sec st"
  by (auto simp: get_full_none_def read_none_def Let_def emit_def
      split: option.splits sum.splits if_splits)

lemma get_full_done_sec: "get_full_done Z ptr sz st = (r, p', st') \<Longrightarrow> sec st' = sec st"
  by (auto simp: get_full_done_def Let_def emit_def split: option.splits sum.splits if_splits)

lemma get_full_sized_sec:
  "compress_status (sec st) = DECOMPRESS_SECTION_SIZED \<Longrightarrow>
   get_full_sized Z abfd ptr sz st = Some (r, p', st') \<Longrightarrow> sec st' = sec st"
  by (cases st, cases "sec st")
     (auto simp: get_full_sized_def Let_def emit_def split: option.splits sum.splits if_splits)

lemma get_full_sec:
  "bfd_get_full_section_contents Z abfd ptr st = Some (r, p', st') \<Longrightarrow> sec st' = sec st"
  by (cases "compress_status (sec st)")
     (auto simp: bfd_get_full_section_contents_def Let_def
        dest: get_full_none_sec get_full_done_sec get_full_sized_sec split: if_splits)

lemma init_decompress_inv:
  "contents_iff_done (sec st) \<Longrightarrow> bfd_init_section_decompress_status abfd st = Inr (ok, st') \<Longrightarrow>
   contents_iff_done (sec st')"
  by (auto simp: bfd_init_section_decompress_status_def Let_def emit_def contents_iff_done_def
      bfd_set_section_alignment_def split: option.splits if_splits)

lemma cache_inv:
  "contents_iff_done (bfd_cache_section_contents s c)
     = ((c \<noteq> None) = (compress_status s \<noteq> COMPRESS_SECTION_NONE))"
  by (cases "compress_status s")
     (auto simp: bfd_cache_section_contents_def contents_iff_done_def)

lemma detect_sec:
  "bfd_is_section_compressed_with_header abfd st = Inr (out, st') \<Longrightarrow> sec st' = sec st"
  by (auto simp: bfd_is_section_compressed_with_header_def Let_def emit_def split: if_splits)

lemma commit_inv:
  assumes inv: "contents_iff_done (sec st)"
    and res: "bfd_compress_section_contents Z abfd ub usz st = Some (Inr (n, st'))"
  shows "contents_iff_done (sec st')
         \<or> (n = usz \<and> contents (sec st') = Some ub
             \<and> compress_status (sec st') = COMPRESS_SECTION_NONE)"
proof (cases "bfd_is_section_compressed_with_header abfd st")
  case (Inl a)
  with res show ?thesis by (simp add: bfd_compress_section_contents_def)
next
  case (Inr x)
  then obtain compressed ohs ousz opow st0 where
    det: "bfd_is_section_compressed_with_header abfd st = Inr ((compressed, ohs, ousz, opow), st0)"
    by (cases x) auto
  have s0: "sec st0 = sec st" using det by (rule detect_sec)
  have inv0: "contents_iff_done (sec st0)" using inv s0 by simp
  show ?thesis
    using res inv0 unfolding bfd_compress_section_contents_def det
    by (auto simp: Let_def emit_def contents_iff_done_def bfd_set_section_alignment_def
        compress_done_def split: option.splits prod.splits if_splits)
qed


lemma init_compress_inv:
  assumes inv: "contents_iff_done (sec st)"
    and res: "bfd_init_section_compress_status Z abfd st = Some (Inr (ok, st'))"
  shows "contents_iff_done (sec st')
         \<or> (ok \<and> contents (sec st') \<noteq> None \<and> compress_status (sec st') = COMPRESS_SECTION_NONE)"
proof (cases "direction abfd \<noteq> read_direction \<or> sec_size (sec st) = 0 \<or> rawsize (sec st) \<noteq> 0
              \<or> contents (sec st) \<noteq> None \<or> compress_status (sec st) \<noteq> COMPRESS_SECTION_NONE")
  case True
  with res have "sec st' = sec st"
    by (auto simp: bfd_init_section_compress_status_def emit_def)
  with inv show ?thesis by simp
next
  case False
  show ?thesis
  proof (cases "bfd_malloc Z (sec_size (sec st))")
    case (Inl e)
    with res False have "sec st' = sec st"
      by (auto simp: bfd_init_section_compress_status_def Let_def emit_def)
    with inv show ?thesis by simp
  next
    case (Inr b0)
    show ?thesis
    proof (cases "bfd_get_section_contents abfd (sec st) 0 (sec_size (sec st))")
      case None
      with res False Inr have "sec st' = sec st"
        by (auto simp: bfd_init_section_compress_status_def Let_def emit_def)
      with inv show ?thesis by simp
    next
      case (Some bs)
      define st2 where "st2 = emit (EvRead 0 (sec_size (sec st))) (emit (EvMalloc (sec_size (sec st))) st)"
      have inv2: "contents_iff_done (sec st2)"
        using inv by (simp add: st2_def emit_def)
      from res False Inr Some obtain n where
        c: "bfd_compress_section_contents Z abfd (write_at 0 bs b0) (sec_size (sec st)) st2
              = Some (Inr (n, st'))"
        and ok: "ok = (n \<noteq> 0)"
        by (auto simp: bfd_init_section_compress_status_def Let_def st2_def emit_def
            split: option.splits sum.splits)
      from commit_inv [OF inv2 c] ok False show ?thesis by auto
    qed
  qed
qed

lemma compress_section_inv:
  assumes inv: "contents_iff_done (sec st)"
    and res: "bfd_compress_section Z abfd ubo st = Some (Inr (ok, st'))"
  shows "contents_iff_done (sec st')
         \<or> (ok \<and> contents (sec st') \<noteq> None \<and> compress_status (sec st') = COMPRESS_SECTION_NONE)"
proof (cases ubo)
  case None
  with res have "sec st' = sec st"
    by (auto simp: bfd_compress_section_def emit_def)
  with inv show ?thesis by simp
next
  case (Some ub)
  show ?thesis
  proof (cases "direction abfd \<noteq> write_direction \<or> sec_size (sec st) = 0
                \<or> contents (sec st) \<noteq> None \<or> compressed_size (sec st) \<noteq> 0
                \<or> compress_status (sec st) \<noteq> COMPRESS_SECTION_NONE")
    case True
    with res Some have "sec st' = sec st"
      by (auto simp: bfd_compress_section_def emit_def)
    with inv show ?thesis by simp
  next
    case False
    with res Some obtain n where
      c: "bfd_compress_section_contents Z abfd ub (sec_size (sec st)) st = Some (Inr (n, st'))"
      and ok: "ok = (n \<noteq> 0)"
      by (auto simp: bfd_compress_section_def Let_def split: option.splits sum.splits)
    from commit_inv [OF inv c] ok False show ?thesis by auto
  qed
qed

lemma is_compressed_sec:
  "bfd_is_section_compressed abfd st = Inr (b, st') \<Longrightarrow> sec st' = sec st"
  by (auto simp: bfd_is_section_compressed_def dest: detect_sec split: sum.splits)

text \<open>
  C2, as the code has it. Starting from a section on which the contents are non-null
  exactly in state Done:
  \<^item> retrieval, detection (both forms) and decompress-status initialisation leave
    that so, on every result;
  \<^item> after \<^verbatim>\<open>bfd_cache_section_contents\<close> it holds exactly when the cached pointer is
    non-null on a section that was not in state None, or null on one that was (the
    function stores whatever pointer it is given, and moves only
    \<^verbatim>\<open>DECOMPRESS_SECTION_SIZED\<close> to Done);
  \<^item> after the commit \<^verbatim>\<open>bfd_compress_section_contents\<close>, and so after
    \<^verbatim>\<open>bfd_init_section_compress_status\<close> and \<^verbatim>\<open>bfd_compress_section\<close>, it holds on every
    result but that of the no-gain fallback, which returns success with the raw
    buffer as contents and the state None.
\<close>

theorem contents_iff_done_after_operations:
  "contents_iff_done (sec st) \<longrightarrow>
     (bfd_get_full_section_contents Z abfd ptr st = Some (r, p', st1)
        \<longrightarrow> contents_iff_done (sec st1))
   \<and> (bfd_is_section_compressed_with_header abfd st = Inr (out, st2)
        \<longrightarrow> contents_iff_done (sec st2))
   \<and> (bfd_is_section_compressed abfd st = Inr (b, st3)
        \<longrightarrow> contents_iff_done (sec st3))
   \<and> (bfd_init_section_decompress_status abfd st = Inr (ok, st4)
        \<longrightarrow> contents_iff_done (sec st4))
   \<and> (contents_iff_done (bfd_cache_section_contents (sec st) c)
        = ((c \<noteq> None) = (compress_status (sec st) \<noteq> COMPRESS_SECTION_NONE)))
   \<and> (bfd_compress_section_contents Z abfd ub usz st = Some (Inr (n, st5))
        \<longrightarrow> contents_iff_done (sec st5)
            \<or> (n = usz \<and> contents (sec st5) = Some ub
                \<and> compress_status (sec st5) = COMPRESS_SECTION_NONE))
   \<and> (bfd_init_section_compress_status Z abfd st = Some (Inr (ok', st6))
        \<longrightarrow> contents_iff_done (sec st6)
            \<or> (ok' \<and> contents (sec st6) \<noteq> None
                \<and> compress_status (sec st6) = COMPRESS_SECTION_NONE))
   \<and> (bfd_compress_section Z abfd ubo st = Some (Inr (ok'', st7))
        \<longrightarrow> contents_iff_done (sec st7)
            \<or> (ok'' \<and> contents (sec st7) \<noteq> None
                \<and> compress_status (sec st7) = COMPRESS_SECTION_NONE))"
proof (intro impI conjI)
  assume inv: "contents_iff_done (sec st)"
  {
    assume "bfd_get_full_section_contents Z abfd ptr st = Some (r, p', st1)"
    then have "sec st1 = sec st" by (rule get_full_sec)
    with inv show "contents_iff_done (sec st1)" by simp
  }
  {
    assume "bfd_is_section_compressed_with_header abfd st = Inr (out, st2)"
    then have "sec st2 = sec st" by (rule detect_sec)
    with inv show "contents_iff_done (sec st2)" by simp
  }
  {
    assume "bfd_is_section_compressed abfd st = Inr (b, st3)"
    then have "sec st3 = sec st" by (rule is_compressed_sec)
    with inv show "contents_iff_done (sec st3)" by simp
  }
  {
    assume "bfd_init_section_decompress_status abfd st = Inr (ok, st4)"
    with inv show "contents_iff_done (sec st4)" by (rule init_decompress_inv)
  }
  show "contents_iff_done (bfd_cache_section_contents (sec st) c)
        = ((c \<noteq> None) = (compress_status (sec st) \<noteq> COMPRESS_SECTION_NONE))"
    by (rule cache_inv)
  {
    assume "bfd_compress_section_contents Z abfd ub usz st = Some (Inr (n, st5))"
    with inv show "contents_iff_done (sec st5)
            \<or> (n = usz \<and> contents (sec st5) = Some ub
                \<and> compress_status (sec st5) = COMPRESS_SECTION_NONE)"
      by (rule commit_inv)
  }
  {
    assume "bfd_init_section_compress_status Z abfd st = Some (Inr (ok', st6))"
    with inv show "contents_iff_done (sec st6)
            \<or> (ok' \<and> contents (sec st6) \<noteq> None
                \<and> compress_status (sec st6) = COMPRESS_SECTION_NONE)"
      by (rule init_compress_inv)
  }
  {
    assume "bfd_compress_section Z abfd ubo st = Some (Inr (ok'', st7))"
    with inv show "contents_iff_done (sec st7)
            \<or> (ok'' \<and> contents (sec st7) \<noteq> None
                \<and> compress_status (sec st7) = COMPRESS_SECTION_NONE)"
      by (rule compress_section_inv)
  }
qed


theorem contents_iff_done_after_operations_witness:
  "contents_iff_done (sec (start (new_section ''.zdebug_info'' 23)))
   \<and> contents_iff_done (sec \<lparr>sec = new_section ''.zdebug_info'' 23, trace = [EvMalloc 23, EvRead 0 23]\<rparr>)
   \<and> contents_iff_done (sec \<lparr>sec = new_section ''.zdebug_info'' 23, trace = [EvRead 0 12]\<rparr>)
   \<and> contents_iff_done
        (sec \<lparr>sec = (new_section ''.zdebug_info'' 23)
                      \<lparr>sec_size := 10, compressed_size := 23, alignment_power := 0,
                       compress_status := DECOMPRESS_SECTION_SIZED\<rparr>,
              trace = [EvRead 0 12]\<rparr>)
   \<and> contents_iff_done (bfd_cache_section_contents (sec (start (new_section ''.zdebug_info'' 23))) None)
   \<and> contents_iff_done (sec \<lparr>sec = (new_section ''.zdebug_info'' 23)
                   \<lparr>sec_size := 10, alignment_power := 0,
                    contents := Some [1, 2, 3, 4, 5, 6, 7, 8, 9, 10],
                    compress_status := COMPRESS_SECTION_DONE\<rparr>, trace = [EvRead 0 12, EvAlloc 10, EvFree]\<rparr>)
   \<and> contents_iff_done
        (sec \<lparr>sec = (new_section ''.zdebug_info'' 23)
                   \<lparr>sec_size := 10, alignment_power := 0,
                    contents := Some [1, 2, 3, 4, 5, 6, 7, 8, 9, 10],
                    compress_status := COMPRESS_SECTION_DONE\<rparr>,
              trace = [EvMalloc 23, EvRead 0 23, EvRead 0 12, EvAlloc 10, EvFree]\<rparr>)
   \<and> contents_iff_done
        (sec \<lparr>sec = new_section ''.zdebug_info'' 23,
              trace = [EvSetError bfd_error_invalid_operation]\<rparr>)"
proof -
  have inv: "contents_iff_done (sec (start (new_section ''.zdebug_info'' 23)))"
    by (simp add: contents_iff_done_def start_def new_section_def)
  have det: "bfd_is_section_compressed_with_header (file_bfd read_direction bfd_target_elf_flavour 24 zdebug10) (start (new_section ''.zdebug_info'' 23))
               = Inr ((True, 0, 10, 0),
                      \<lparr>sec = new_section ''.zdebug_info'' 23, trace = [EvRead 0 12]\<rparr>)"
    by (simp add: bfd_is_section_compressed_with_header_def Let_def emit_def file_bfd_def
        start_def new_section_def MAX_COMPRESSION_HEADER_SIZE_def zdebug10_def startswith_def
        bytes_of_def bfd_getb64_def ISPRINT_def)
  have get: "bfd_get_full_section_contents stored_libs (file_bfd read_direction bfd_target_elf_flavour 24 zdebug10) None (start (new_section ''.zdebug_info'' 23))
               = Some (True, Some zdebug10,
                       \<lparr>sec = new_section ''.zdebug_info'' 23, trace = [EvMalloc 23, EvRead 0 23]\<rparr>)"
    by (simp add: bfd_get_full_section_contents_def get_full_none_def read_none_def section_sz_def
        Let_def emit_def file_bfd_def start_def new_section_def stored_libs_def zdebug10_def
        bytes_of_def write_at_def)
  have isc: "bfd_is_section_compressed (file_bfd read_direction bfd_target_elf_flavour 24 zdebug10) (start (new_section ''.zdebug_info'' 23))
               = Inr (True, \<lparr>sec = new_section ''.zdebug_info'' 23, trace = [EvRead 0 12]\<rparr>)"
    by (simp add: bfd_is_section_compressed_def det)
  have ini: "bfd_init_section_decompress_status (file_bfd read_direction bfd_target_elf_flavour 24 zdebug10) (start (new_section ''.zdebug_info'' 23))
               = Inr (True,
                      \<lparr>sec = (new_section ''.zdebug_info'' 23)
                                \<lparr>sec_size := 10, compressed_size := 23, alignment_power := 0,
                                 compress_status := DECOMPRESS_SECTION_SIZED\<rparr>,
                       trace = [EvRead 0 12]\<rparr>)"
    by (simp add: bfd_init_section_decompress_status_def Let_def emit_def file_bfd_def
        start_def new_section_def MAX_COMPRESSION_HEADER_SIZE_def zdebug10_def startswith_def
        bytes_of_def bfd_getb64_def bfd_set_section_alignment_def)
  have dec: "decompress_contents stored_libs [10, 1, 2, 3, 4, 5, 6, 7, 8, 9, 10] 11 (replicate 10 0) 10
               = Some (True, [1, 2, 3, 4, 5, 6, 7, 8, 9, 10])"
    by (simp add: decompress_contents_def inflate_loop.simps inflate_call_def stored_libs_def
        stored_inflate_def to_uInt_def Z_OK_def Z_STREAM_END_def write_at_def)
  have com: "bfd_compress_section_contents stored_libs (file_bfd read_direction bfd_target_elf_flavour 24 zdebug10) zdebug10 23 st
               = Some (Inr (10, \<lparr>sec = (new_section ''.zdebug_info'' 23)
                   \<lparr>sec_size := 10, alignment_power := 0,
                    contents := Some [1, 2, 3, 4, 5, 6, 7, 8, 9, 10],
                    compress_status := COMPRESS_SECTION_DONE\<rparr>, trace = trace st @ [EvRead 0 12, EvAlloc 10, EvFree]\<rparr>))"
    if "sec st = new_section ''.zdebug_info'' 23" for st
    using that
    by (cases st)
       (simp add: bfd_compress_section_contents_def bfd_is_section_compressed_with_header_def
        Let_def emit_def file_bfd_def new_section_def MAX_COMPRESSION_HEADER_SIZE_def
        zdebug10_def startswith_def bytes_of_def bfd_getb64_def ISPRINT_def to_int_def to_uLong_def
        dec bfd_set_section_alignment_def)
  have com0: "bfd_compress_section_contents stored_libs (file_bfd read_direction bfd_target_elf_flavour 24 zdebug10) zdebug10 23 (start (new_section ''.zdebug_info'' 23))
               = Some (Inr (10, \<lparr>sec = (new_section ''.zdebug_info'' 23)
                   \<lparr>sec_size := 10, alignment_power := 0,
                    contents := Some [1, 2, 3, 4, 5, 6, 7, 8, 9, 10],
                    compress_status := COMPRESS_SECTION_DONE\<rparr>, trace = [EvRead 0 12, EvAlloc 10, EvFree]\<rparr>))"
    using com [of "start (new_section ''.zdebug_info'' 23)"] by (simp add: start_def)
  have inc: "bfd_init_section_compress_status stored_libs (file_bfd read_direction bfd_target_elf_flavour 24 zdebug10) (start (new_section ''.zdebug_info'' 23))
               = Some (Inr (True,
                            \<lparr>sec = (new_section ''.zdebug_info'' 23)
                   \<lparr>sec_size := 10, alignment_power := 0,
                    contents := Some [1, 2, 3, 4, 5, 6, 7, 8, 9, 10],
                    compress_status := COMPRESS_SECTION_DONE\<rparr>,
                             trace = [EvMalloc 23, EvRead 0 23, EvRead 0 12, EvAlloc 10, EvFree]\<rparr>))"
  proof -
    have rd: "write_at 0 (the (bfd_get_section_contents (file_bfd read_direction bfd_target_elf_flavour 24 zdebug10) (new_section ''.zdebug_info'' 23) 0 23))
                (replicate 23 0) = zdebug10"
      by (simp add: file_bfd_def zdebug10_def bytes_of_def write_at_def)
    show ?thesis
      using com [of "\<lparr>sec = new_section ''.zdebug_info'' 23, trace = [EvMalloc 23, EvRead 0 23]\<rparr>"] rd
      by (simp add: bfd_init_section_compress_status_def Let_def emit_def start_def
          stored_libs_def file_bfd_def new_section_def zdebug10_def bytes_of_def write_at_def)
  qed
  have cse: "bfd_compress_section stored_libs (file_bfd read_direction bfd_target_elf_flavour 24 zdebug10) (Some zdebug10) (start (new_section ''.zdebug_info'' 23))
               = Some (Inr (False,
                            \<lparr>sec = new_section ''.zdebug_info'' 23,
                             trace = [EvSetError bfd_error_invalid_operation]\<rparr>))"
    by (simp add: bfd_compress_section_def Let_def emit_def start_def file_bfd_def)
  note T = contents_iff_done_after_operations [of "start (new_section ''.zdebug_info'' 23)" stored_libs "file_bfd read_direction bfd_target_elf_flavour 24 zdebug10" None
      True "Some zdebug10"
      "\<lparr>sec = new_section ''.zdebug_info'' 23, trace = [EvMalloc 23, EvRead 0 23]\<rparr>"
      "(True, 0, 10, 0)"
      "\<lparr>sec = new_section ''.zdebug_info'' 23, trace = [EvRead 0 12]\<rparr>"
      True
      "\<lparr>sec = new_section ''.zdebug_info'' 23, trace = [EvRead 0 12]\<rparr>"
      True
      "\<lparr>sec = (new_section ''.zdebug_info'' 23)
                      \<lparr>sec_size := 10, compressed_size := 23, alignment_power := 0,
                       compress_status := DECOMPRESS_SECTION_SIZED\<rparr>,
              trace = [EvRead 0 12]\<rparr>"
      None zdebug10 23 10
      "\<lparr>sec = (new_section ''.zdebug_info'' 23)
                   \<lparr>sec_size := 10, alignment_power := 0,
                    contents := Some [1, 2, 3, 4, 5, 6, 7, 8, 9, 10],
                    compress_status := COMPRESS_SECTION_DONE\<rparr>, trace = [EvRead 0 12, EvAlloc 10, EvFree]\<rparr>"
      True
      "\<lparr>sec = (new_section ''.zdebug_info'' 23)
                   \<lparr>sec_size := 10, alignment_power := 0,
                    contents := Some [1, 2, 3, 4, 5, 6, 7, 8, 9, 10],
                    compress_status := COMPRESS_SECTION_DONE\<rparr>, trace = [EvMalloc 23, EvRead 0 23, EvRead 0 12, EvAlloc 10, EvFree]\<rparr>"
      "Some zdebug10" False
      "\<lparr>sec = new_section ''.zdebug_info'' 23, trace = [EvSetError bfd_error_invalid_operation]\<rparr>"]
  from T inv get have c1:
    "contents_iff_done (sec \<lparr>sec = new_section ''.zdebug_info'' 23, trace = [EvMalloc 23, EvRead 0 23]\<rparr>)"
    by simp
  from T inv det isc have c2:
    "contents_iff_done (sec \<lparr>sec = new_section ''.zdebug_info'' 23, trace = [EvRead 0 12]\<rparr>)"
    by simp
  from T inv ini have c4:
    "contents_iff_done
        (sec \<lparr>sec = (new_section ''.zdebug_info'' 23)
                      \<lparr>sec_size := 10, compressed_size := 23, alignment_power := 0,
                       compress_status := DECOMPRESS_SECTION_SIZED\<rparr>,
              trace = [EvRead 0 12]\<rparr>)"
    by simp
  from T inv have c5:
    "contents_iff_done (bfd_cache_section_contents (sec (start (new_section ''.zdebug_info'' 23))) None)"
    by (simp add: start_def new_section_def)
  from T inv com0 have c6:
    "contents_iff_done (sec \<lparr>sec = (new_section ''.zdebug_info'' 23)
                   \<lparr>sec_size := 10, alignment_power := 0,
                    contents := Some [1, 2, 3, 4, 5, 6, 7, 8, 9, 10],
                    compress_status := COMPRESS_SECTION_DONE\<rparr>, trace = [EvRead 0 12, EvAlloc 10, EvFree]\<rparr>)"
    by simp
  from T inv inc have c7:
    "contents_iff_done
        (sec \<lparr>sec = (new_section ''.zdebug_info'' 23)
                   \<lparr>sec_size := 10, alignment_power := 0,
                    contents := Some [1, 2, 3, 4, 5, 6, 7, 8, 9, 10],
                    compress_status := COMPRESS_SECTION_DONE\<rparr>,
              trace = [EvMalloc 23, EvRead 0 23, EvRead 0 12, EvAlloc 10, EvFree]\<rparr>)"
    by simp
  from T inv cse have c8:
    "contents_iff_done
        (sec \<lparr>sec = new_section ''.zdebug_info'' 23,
              trace = [EvSetError bfd_error_invalid_operation]\<rparr>)"
    by simp
  from inv c1 c2 c4 c5 c6 c7 c8 show ?thesis by blast
qed

text \<open>
  C2 as it is stated fails twice: caching a buffer on a section in state None leaves
  non-null contents in state None, and so does the no-gain fallback of the commit.
\<close>

theorem contents_without_done_counterexample:
  "contents_iff_done (new_section ''.text'' 4)
   \<and> \<not> contents_iff_done (bfd_cache_section_contents (new_section ''.text'' 4) (Some [1, 2, 3, 4]))
   \<and> contents_iff_done (sec (start (new_section ''.debug_info'' 16)))
   \<and> bfd_compress_section_contents stored_libs
        (file_bfd write_direction bfd_target_elf_flavour 0 raw16) raw16 16
        (start (new_section ''.debug_info'' 16))
      = Some (Inr (16,
                   \<lparr>sec = (new_section ''.debug_info'' 16)\<lparr>contents := Some raw16,
                                                           compress_status := COMPRESS_SECTION_NONE\<rparr>,
                    trace = [EvRead 0 12, EvAlloc 29, EvRelease]\<rparr>))
   \<and> \<not> contents_iff_done
          (sec \<lparr>sec = (new_section ''.debug_info'' 16)\<lparr>contents := Some raw16,
                                                       compress_status := COMPRESS_SECTION_NONE\<rparr>,
                trace = [EvRead 0 12, EvAlloc 29, EvRelease]\<rparr>)"
  by (simp add: contents_iff_done_def bfd_cache_section_contents_def
      bfd_compress_section_contents_def bfd_is_section_compressed_with_header_def
      Let_def emit_def file_bfd_def start_def new_section_def MAX_COMPRESSION_HEADER_SIZE_def
      stored_libs_def stored_compress_def to_uLong_def raw16_def startswith_def bytes_of_def
      Z_OK_def write_at_def)

end
